theory Spec2Isabelle
  imports Complex_Main "HOL-Library.AList"
begin

section \<open>Shared data model\<close>

text \<open>
  The game stores numbers in Python \<open>int\<close>s (unbounded) and computes damage, prices and
  fuel with Python floats. Integers are modelled as \<^typ>\<open>int\<close>. A float expression is
  modelled by the exact value of the same expression over \<^typ>\<open>real\<close>; the rounding of
  IEEE doubles, infinities and NaN are not part of the model. The only place where a float
  flows back into stored state is through \<open>int(...)\<close>, which truncates towards zero.
\<close>

definition py_int :: "real \<Rightarrow> int" where
  "py_int x = (if x < 0 then \<lceil>x\<rceil> else \<lfloor>x\<rfloor>)"

text \<open>
  A JSON column holding a dictionary is an association list in insertion order: assigning
  to an existing key keeps its position, assigning to a new key appends
  (\<^const>\<open>AList.update\<close>). The keys of a well-formed dictionary are distinct. A column that
  was never written is \<open>None\<close>.
\<close>

type_synonym cargo = "(string \<times> int) list"

text \<open>\<open>d or {}\<close>: an unset column and an empty dictionary both give the empty dictionary.\<close>

definition or_empty :: "('k \<times> 'v) list option \<Rightarrow> ('k \<times> 'v) list" where
  "or_empty d = (case d of None \<Rightarrow> [] | Some c \<Rightarrow> c)"

text \<open>\<open>d.get(k, 0)\<close>.\<close>

definition get0 :: "cargo \<Rightarrow> string \<Rightarrow> int" where
  "get0 d k = (case map_of d k of None \<Rightarrow> 0 | Some q \<Rightarrow> q)"

text \<open>
  The columns of \<open>models.Vehicle\<close> that the travel and combat code reads or writes.
  Timestamps are microseconds since the epoch.
\<close>

record Vehicle =
  vehicle_id :: int
  owner_id :: int
  speed :: int
  current_fuel :: int
  durability :: int
  attack_power :: int
  defense :: int
  current_location_id :: "int option"
  destination_id :: "int option"
  is_traveling :: bool
  travel_start_time :: "int option"
  estimated_arrival :: "int option"
  current_cargo :: "cargo option"

section \<open>Combat resolver (\<open>routers/combat.py\<close>)\<close>

record CombatAction =
  action_type :: string
  target_id :: "int option"
  ability_name :: "string option"

record CombatResult =
  winner_id :: "int option"
  damage_dealt :: int
  damage_received :: int
  cargo_lost :: cargo
  cargo_gained :: cargo
  credits_lost :: int
  credits_gained :: int
  experience_gained :: int

text \<open>
  The values drawn from the \<open>random\<close> module, in the order the code draws them. A field
  that a run does not draw is not read by the model either.
\<close>

record CombatRolls =
  damage_variance :: real        \<comment> \<open>\<open>random.uniform(0.8, 1.2)\<close>\<close>
  counter_variance :: real       \<comment> \<open>\<open>random.uniform(0.5, 0.8)\<close>, for pirates \<open>uniform(0.7, 1.0)\<close>\<close>
  reward_credits_roll :: int     \<comment> \<open>\<open>random.randint(50, 200)\<close>\<close>
  artifact_roll :: real          \<comment> \<open>\<open>random.random()\<close>\<close>
  loss_credits_roll :: int       \<comment> \<open>\<open>random.randint(100, 500)\<close>\<close>

definition damage_multiplier :: "CombatAction \<Rightarrow> real" where
  "damage_multiplier combat_action =
     (if action_type combat_action = ''attack'' then 1.0
      else if action_type combat_action = ''special_ability'' then 1.5
      else 0.8)"

text \<open>\<open>target_cargo[cargo_type] -= stolen_amount\<close> on a key that is present.\<close>

definition dict_sub :: "string \<Rightarrow> int \<Rightarrow> cargo \<Rightarrow> cargo" where
  "dict_sub k n d = (case map_of d k of None \<Rightarrow> d | Some q \<Rightarrow> AList.update k (q - n) d)"

text \<open>
  The loot loop of \<open>_execute_combat\<close> over \<open>target_cargo.items()\<close>; the state is
  \<open>(cargo_gained, cargo_lost, target_cargo)\<close>.
\<close>

definition stolen_amount :: "int \<Rightarrow> int" where
  "stolen_amount quantity = min quantity (quantity div 4)"

fun steal_loop :: "(string \<times> int) list \<Rightarrow> cargo \<times> cargo \<times> cargo \<Rightarrow> cargo \<times> cargo \<times> cargo" where
  "steal_loop [] st = st"
| "steal_loop ((cargo_type, quantity) # items) (gained, lost, target_cargo) =
     (if stolen_amount quantity > 0
      then steal_loop items
             (AList.update cargo_type (stolen_amount quantity) gained,
              AList.update cargo_type (stolen_amount quantity) lost,
              dict_sub cargo_type (stolen_amount quantity) target_cargo)
      else steal_loop items (gained, lost, target_cargo))"

text \<open>The second loop: the stolen cargo is added to the attacker's hold.\<close>

fun add_cargo_loop :: "(string \<times> int) list \<Rightarrow> cargo \<Rightarrow> cargo" where
  "add_cargo_loop [] attacker_cargo = attacker_cargo"
| "add_cargo_loop ((cargo_type, quantity) # items) attacker_cargo =
     add_cargo_loop items
       (AList.update cargo_type (get0 attacker_cargo cargo_type + quantity) attacker_cargo)"

text \<open>
  \<open>_execute_combat\<close>. The two vehicles are mutated in place and committed; the model
  returns them with the result.
\<close>

definition execute_combat ::
  "Vehicle \<Rightarrow> Vehicle \<Rightarrow> CombatAction \<Rightarrow> CombatRolls \<Rightarrow> Vehicle \<times> Vehicle \<times> CombatResult" where
  "execute_combat attacker_vehicle target_vehicle combat_action rolls =
     (let base_damage = attack_power attacker_vehicle;
          final_damage = py_int (real_of_int base_damage * damage_multiplier combat_action
                                  * damage_variance rolls);
          damage_after_defense = max 1 (final_damage - defense target_vehicle);
          target1 = target_vehicle\<lparr>durability :=
                      max 0 (durability target_vehicle - damage_after_defense)\<rparr>;
          counter0 = max 1 (attack_power target1 - defense attacker_vehicle);
          counter_damage = py_int (real_of_int counter0 * counter_variance rolls);
          attacker1 = attacker_vehicle\<lparr>durability :=
                        max 0 (durability attacker_vehicle - counter_damage)\<rparr>;
          winner = (if durability target1 = 0 then Some (owner_id attacker1)
                    else if durability attacker1 = 0 then Some (owner_id target1)
                    else None)
      in if winner = Some (owner_id attacker1)
         then
           (let target_cargo = or_empty (current_cargo target1);
                (gained, lost, target_cargo') = steal_loop target_cargo ([], [], target_cargo);
                target2 = target1\<lparr>current_cargo := Some target_cargo'\<rparr>;
                attacker_cargo = add_cargo_loop gained (or_empty (current_cargo attacker1));
                attacker2 = attacker1\<lparr>current_cargo := Some attacker_cargo\<rparr>
            in (attacker2, target2,
                \<lparr>winner_id = winner, damage_dealt = damage_after_defense,
                 damage_received = counter_damage, cargo_lost = lost, cargo_gained = gained,
                 credits_lost = 0, credits_gained = 100, experience_gained = 50\<rparr>))
         else
           (attacker1, target1,
            \<lparr>winner_id = winner, damage_dealt = damage_after_defense,
             damage_received = counter_damage, cargo_lost = [], cargo_gained = [],
             credits_lost = 0, credits_gained = 0, experience_gained = 25\<rparr>))"






section \<open>Economic simulator (\<open>game_engine.py\<close>)\<close>

datatype CargoType = FOOD | FUEL | ELECTRONICS | WEAPONS | ARTIFACTS | MATERIALS

text \<open>One value of the \<open>price_history\<close> dictionary.\<close>

record PriceSnapshot =
  snap_buy_price :: int
  snap_sell_price :: int
  snap_supply :: int
  snap_demand :: int

text \<open>
  \<open>models.MarketPrice\<close>; the column \<open>supply\<close> is the field \<open>supply_qty\<close>. The keys of
  \<open>price_history\<close> are written by \<open>datetime.isoformat()\<close> and read back by
  \<open>datetime.fromisoformat\<close>, which inverts it; the model keys the dictionary by the timestamp
  itself, in microseconds.
\<close>

type_synonym history = "(int \<times> PriceSnapshot) list"

record MarketPrice =
  location_id :: int
  cargo_type :: CargoType
  buy_price :: int
  sell_price :: int
  supply_qty :: int
  demand :: int
  price_history :: "history option"

definition hours24 :: int where
  "hours24 = 24 * 3600 * 1000000"

text \<open>
  The body of the loop of \<open>_process_market_updates\<close> for one market entry, in its three
  steps. First the supply and demand changes, the two draws of \<open>random.randint(-10, 10)\<close>.
\<close>

definition simulate_supply_demand :: "int \<times> int \<Rightarrow> MarketPrice \<Rightarrow> MarketPrice" where
  "simulate_supply_demand changes price =
     (let supply_change = fst changes;
          demand_change = snd changes
      in price\<lparr>supply_qty := max 0 (supply_qty price + supply_change),
                demand := max 0 (demand price + demand_change)\<rparr>)"

text \<open>Then the prices follow the ratio of supply to demand.\<close>

definition supply_demand_ratio :: "MarketPrice \<Rightarrow> real" where
  "supply_demand_ratio price = real_of_int (supply_qty price) / real_of_int (max (demand price) 1)"

definition adjust_prices :: "MarketPrice \<Rightarrow> MarketPrice" where
  "adjust_prices price =
     (if supply_demand_ratio price > 1.5
      then price\<lparr>buy_price := max 1 (py_int (real_of_int (buy_price price) * 0.95)),
                 sell_price := max 1 (py_int (real_of_int (sell_price price) * 0.95))\<rparr>
      else if supply_demand_ratio price < 0.7
      then price\<lparr>buy_price := py_int (real_of_int (buy_price price) * 1.05),
                 sell_price := py_int (real_of_int (sell_price price) * 1.05)\<rparr>
      else price)"

text \<open>
  Last the new prices are written into the history under the current time, and the history
  is cut to the entries younger than 24 hours.
\<close>

definition snapshot :: "MarketPrice \<Rightarrow> PriceSnapshot" where
  "snapshot price =
     \<lparr>snap_buy_price = buy_price price, snap_sell_price = sell_price price,
      snap_supply = supply_qty price, snap_demand = demand price\<rparr>"

definition update_price_history :: "int \<Rightarrow> MarketPrice \<Rightarrow> MarketPrice" where
  "update_price_history current_time price =
     (let history0 = or_empty (price_history price);
          history1 = AList.update current_time (snapshot price) history0;
          cutoff_time = current_time - hours24
      in price\<lparr>price_history :=
                 Some (filter (\<lambda>(timestamp, data). timestamp > cutoff_time) history1)\<rparr>)"

definition update_market_price :: "int \<Rightarrow> int \<times> int \<Rightarrow> MarketPrice \<Rightarrow> MarketPrice" where
  "update_market_price current_time changes price =
     update_price_history current_time (adjust_prices (simulate_supply_demand changes price))"

text \<open>
  \<open>_process_market_updates\<close>: nothing happens before 300 seconds have passed since
  \<open>last_market_update\<close>; otherwise every market entry is updated, the \<open>i\<close>-th with the draws
  \<open>rolls i\<close>. The result is the new \<open>last_market_update\<close> and the table.
\<close>

definition process_market_updates ::
  "int \<Rightarrow> int \<Rightarrow> (nat \<Rightarrow> int \<times> int) \<Rightarrow> MarketPrice list \<Rightarrow> int \<times> MarketPrice list" where
  "process_market_updates current_time last_market_update rolls market_prices =
     (if current_time - last_market_update < 300 * 1000000
      then (last_market_update, market_prices)
      else (current_time,
            map (\<lambda>(i, price). update_market_price current_time (rolls i) price)
                (zip [0..<length market_prices] market_prices)))"

section \<open>World event generator: market shift (\<open>game_engine.py\<close>)\<close>

text \<open>The fields of the \<open>GameEvent\<close> that \<open>_create_market_shift_event\<close> builds.\<close>

record MarketShiftEvent =
  event_cargo_type :: CargoType
  shift_direction :: string
  price_multiplier :: real
  affected_locations :: "int list"
  duration_minutes :: int
  severity :: int

text \<open>
  \<open>_create_market_shift_event\<close>; the cargo kind, the direction (\<open>surge\<close> or \<open>crash\<close>) and the
  severity (\<open>randint(3, 7)\<close>) are the random choices. The event's multiplier is applied at once
  to the buy and sell price of every entry of that cargo kind at an affected location.
\<close>

definition create_market_shift_event ::
  "int list \<Rightarrow> CargoType \<Rightarrow> string \<Rightarrow> int \<Rightarrow> MarketPrice list
     \<Rightarrow> MarketShiftEvent \<times> MarketPrice list" where
  "create_market_shift_event location_ids chosen_cargo chosen_direction severity_roll market_prices =
     (let event = \<lparr>event_cargo_type = chosen_cargo, shift_direction = chosen_direction,
                    price_multiplier = (if chosen_direction = ''surge'' then 1.5 else 0.7),
                    affected_locations = location_ids, duration_minutes = 60,
                    severity = severity_roll\<rparr>;
          multiplier = price_multiplier event
      in (event,
          map (\<lambda>price.
                 if location_id price \<in> set location_ids \<and> cargo_type price = chosen_cargo
                 then price\<lparr>buy_price := py_int (real_of_int (buy_price price) * multiplier),
                            sell_price := py_int (real_of_int (sell_price price) * multiplier)\<rparr>
                 else price)
              market_prices))"

section \<open>Travel (\<open>routers/vehicles.py\<close>, \<open>game_engine.py\<close>)\<close>




















section \<open>Mission deadline sweep (\<open>game_engine.py\<close>)\<close>

datatype MissionStatus = AVAILABLE | ACCEPTED | IN_PROGRESS | COMPLETED | FAILED | EXPIRED









section \<open>Connection registry (\<open>websocket_manager.py\<close>)\<close>












section \<open>Concrete inputs\<close>

text \<open>Two vehicles of different owners with one point of durability left each.\<close>

definition ex_attacker :: Vehicle where
  "ex_attacker = \<lparr>vehicle_id = 1, owner_id = 1, speed = 50, current_fuel = 100, durability = 1,
     attack_power = 50, defense = 0, current_location_id = Some 1, destination_id = None,
     is_traveling = False, travel_start_time = None, estimated_arrival = None,
     current_cargo = None\<rparr>"

definition ex_target :: Vehicle where
  "ex_target = \<lparr>vehicle_id = 2, owner_id = 2, speed = 50, current_fuel = 100, durability = 1,
     attack_power = 10, defense = 0, current_location_id = Some 1, destination_id = None,
     is_traveling = False, travel_start_time = None, estimated_arrival = None,
     current_cargo = Some [(''food'', 9)]\<rparr>"

definition ex_attack :: CombatAction where
  "ex_attack = \<lparr>action_type = ''attack'', target_id = None, ability_name = None\<rparr>"

text \<open>Rolls inside their ranges: variance \<open>1.0\<close>, counter variance \<open>0.5\<close>.\<close>

definition ex_rolls :: CombatRolls where
  "ex_rolls = \<lparr>damage_variance = 1, counter_variance = 1/2, reward_credits_roll = 50,
     artifact_roll = 1/2, loss_credits_roll = 100\<rparr>"





text \<open>
  A market entry at the price floor, and an oversupplied entry (supply 200, demand 50) whose
  history holds one entry older than 24 hours at the update time \<open>ex_now\<close> and one younger.
\<close>

definition ex_cheap :: MarketPrice where
  "ex_cheap = \<lparr>location_id = 1, cargo_type = FOOD, buy_price = 1, sell_price = 1,
     supply_qty = 100, demand = 100, price_history = None\<rparr>"













section \<open>Combat: who wins\<close>

text \<open>
  Claim C1, as the specification states it: a winner is declared only for the side whose
  opponent's durability reached 0 while its own durability stays above 0, so no exchange
  ends with both durabilities at 0 and a side at 0 declared the winner.

  The code tests the target first and applies the counter-attack even when the target has
  been destroyed. With both vehicles at durability 1, an attack of 50 against a counter of
  \<open>int(10 * 0.5) = 5\<close> leaves both at 0, and the attacker's owner, whose vehicle is at 0, wins.
\<close>

theorem execute_combat_both_zero_counterexample:
  "durability (fst (execute_combat ex_attacker ex_target ex_attack ex_rolls)) = 0
   \<and> durability (fst (snd (execute_combat ex_attacker ex_target ex_attack ex_rolls))) = 0
   \<and> winner_id (snd (snd (execute_combat ex_attacker ex_target ex_attack ex_rolls)))
       = Some (owner_id ex_attacker)
   \<and> owner_id ex_attacker \<noteq> owner_id ex_target"
  by (simp add: execute_combat_def ex_attacker_def ex_target_def ex_attack_def ex_rolls_def
      damage_multiplier_def py_int_def Let_def or_empty_def stolen_amount_def dict_sub_def
      get0_def)

text \<open>
  Claim C1, amended: after the exchange both durabilities are at least 0; the attacker's
  owner is the winner exactly when the target's durability is 0 (whether or not the
  attacker's own durability is 0 as well); the target's owner is the winner when the
  target's durability is above 0 and the attacker's is 0; there is no winner when both are
  above 0.
\<close>

theorem execute_combat_winner:
  "(case execute_combat a t act rolls of
      (a', t', r) \<Rightarrow>
        winner_id r = (if durability t' = 0 then Some (owner_id a)
                       else if durability a' = 0 then Some (owner_id t)
                       else None)
        \<and> 0 \<le> durability a' \<and> 0 \<le> durability t')"
  by (auto simp: execute_combat_def Let_def split: prod.splits)

section \<open>Combat: determinism under pinned rolls\<close>



section \<open>Pirate combat: the loss branch\<close>











section \<open>Market prices: the price floor\<close>


lemma py_int_105: "0 \<le> n \<Longrightarrow> py_int (real_of_int n * 1.05) = 21 * n div 20"
proof -
  assume n: "0 \<le> n"
  have "real_of_int n * 1.05 = real_of_int (21 * n) / real_of_int 20" by simp
  then have "\<lfloor>real_of_int n * 1.05\<rfloor> = 21 * n div 20"
    by (simp only: floor_divide_of_int_eq)
  moreover have "\<not> real_of_int n * 1.05 < 0" using n by simp
  ultimately show ?thesis by (simp only: py_int_def if_False)
qed

lemma growth_floor: "1 \<le> n \<Longrightarrow> 1 \<le> py_int (real_of_int n * 1.05)"
proof -
  assume n: "1 \<le> n"
  then have "0 \<le> n" by simp
  from py_int_105[OF this] have "py_int (real_of_int n * 1.05) = 21 * n div 20" .
  moreover have "1 \<le> 21 * n div 20" using n by linarith
  ultimately show ?thesis by (simp only:)
qed

text \<open>
  The periodic simulation keeps both prices at 1 or above: the decay branch takes the
  maximum with 1, the growth branch cannot shrink a positive price.
\<close>

lemma adjust_prices_floor:
  assumes "1 \<le> buy_price p" and "1 \<le> sell_price p"
  shows "1 \<le> buy_price (adjust_prices p) \<and> 1 \<le> sell_price (adjust_prices p)"
proof (cases "supply_demand_ratio p > 1.5")
  case True
  then have "adjust_prices p = p\<lparr>buy_price := max 1 (py_int (real_of_int (buy_price p) * 0.95)),
                 sell_price := max 1 (py_int (real_of_int (sell_price p) * 0.95))\<rparr>"
    by (simp only: adjust_prices_def if_True)
  then show ?thesis by simp
next
  case False
  show ?thesis
  proof (cases "supply_demand_ratio p < 0.7")
    case True
    with False have "adjust_prices p = p\<lparr>buy_price := py_int (real_of_int (buy_price p) * 1.05),
                 sell_price := py_int (real_of_int (sell_price p) * 1.05)\<rparr>"
      by (simp only: adjust_prices_def if_True if_False)
    then show ?thesis using growth_floor[OF assms(1)] growth_floor[OF assms(2)] by simp
  next
    case nolow: False
    with False have "adjust_prices p = p"
      by (simp only: adjust_prices_def if_False)
    then show ?thesis using assms by simp
  qed
qed

lemma simulate_prices [simp]:
  "buy_price (simulate_supply_demand ch p) = buy_price p"
  "sell_price (simulate_supply_demand ch p) = sell_price p"
  "price_history (simulate_supply_demand ch p) = price_history p"
  by (simp_all add: simulate_supply_demand_def Let_def)

lemma history_prices [simp]:
  "buy_price (update_price_history now p) = buy_price p"
  "sell_price (update_price_history now p) = sell_price p"
  "supply_qty (update_price_history now p) = supply_qty p"
  "demand (update_price_history now p) = demand p"
  by (simp_all add: update_price_history_def Let_def)

lemma update_market_price_floor:
  assumes "1 \<le> buy_price p" and "1 \<le> sell_price p"
  shows "1 \<le> buy_price (update_market_price now ch p)
       \<and> 1 \<le> sell_price (update_market_price now ch p)"
  using adjust_prices_floor[of "simulate_supply_demand ch p"] assms
  by (simp add: update_market_price_def)


lemma process_market_updates_length:
  "length (snd (process_market_updates now last_update rolls ps)) = length ps"
  by (simp add: process_market_updates_def)

lemma process_market_updates_floor:
  assumes "\<forall>p \<in> set ps. 1 \<le> buy_price p \<and> 1 \<le> sell_price p"
  shows "\<forall>p \<in> set (snd (process_market_updates now last_update rolls ps)).
           1 \<le> buy_price p \<and> 1 \<le> sell_price p"
proof (cases "now - last_update < 300 * 1000000")
  case True
  then show ?thesis using assms by (simp add: process_market_updates_def)
next
  case False
  show ?thesis
  proof
    fix p' assume "p' \<in> set (snd (process_market_updates now last_update rolls ps))"
    with False obtain i p where "p \<in> set ps" and "p' = update_market_price now (rolls i) p"
      by (auto simp: process_market_updates_def dest: set_zip_rightD)
    with assms show "1 \<le> buy_price p' \<and> 1 \<le> sell_price p'"
      by (simp add: update_market_price_floor)
  qed
qed

text \<open>
  Claim C2: every update of market prices keeps \<open>buy_price\<close> and \<open>sell_price\<close> at 1 or above.
  The periodic simulation does (\<open>process_market_updates_floor\<close>), and so does the market task,
  both by taking \<open>max(1, ...)\<close>. The immediate price application of a market-shift event
  truncates \<open>price * multiplier\<close> without that floor: a crash (multiplier \<open>0.7\<close>) sends an
  entry priced 1 to \<open>int(0.7) = 0\<close>.
\<close>

theorem market_shift_crash_breaks_floor:
  "1 \<le> buy_price ex_cheap \<and> 1 \<le> sell_price ex_cheap
   \<and> map buy_price (snd (create_market_shift_event [1] FOOD ''crash'' 5 [ex_cheap])) = [0]
   \<and> map sell_price (snd (create_market_shift_event [1] FOOD ''crash'' 5 [ex_cheap])) = [0]"
  by (simp add: create_market_shift_event_def ex_cheap_def py_int_def Let_def)

section \<open>Market prices: the supply and demand rule\<close>

lemma simulate_fields [simp]:
  "supply_qty (simulate_supply_demand (sc, dc) p) = max 0 (supply_qty p + sc)"
  "demand (simulate_supply_demand (sc, dc) p) = max 0 (demand p + dc)"
  by (simp_all add: simulate_supply_demand_def Let_def)

lemma adjust_fields [simp]:
  "supply_qty (adjust_prices p) = supply_qty p"
  "demand (adjust_prices p) = demand p"
  "price_history (adjust_prices p) = price_history p"
  by (simp_all add: adjust_prices_def)






section \<open>Market prices: the 24-hour history window\<close>

text \<open>
  What the history holds after the update, key by key: nothing at a timestamp 24 hours old
  or older, the new snapshot at the timestamp of the update, and elsewhere what it held
  before.
\<close>

lemma map_of_filter_key:
  "map_of (filter (\<lambda>(k, v). P k) xs) k = (if P k then map_of xs k else None)"
  by (induction xs) auto

lemma update_price_history_lookup:
  "map_of (or_empty (price_history (update_price_history now p))) ts =
     (if ts \<le> now - hours24 then None
      else if ts = now then Some (snapshot p)
      else map_of (or_empty (price_history p)) ts)"
proof -
  have "price_history (update_price_history now p) =
        Some (filter (\<lambda>(k, v). now - hours24 < k)
                (AList.update now (snapshot p) (or_empty (price_history p))))"
    by (simp add: update_price_history_def Let_def)
  then show ?thesis
    by (simp add: or_empty_def map_of_filter_key update_conv')
qed




section \<open>Travel: the table after \<open>start_travel\<close>\<close>











section \<open>Travel: the invariant of the travel columns\<close>








section \<open>Mission deadlines: the penalty\<close>






section \<open>Connection registry: disconnect\<close>
















end
